theory Spec2Isabelle
  imports Complex_Main
begin

section \<open>Python values, dictionaries and errors\<close>

text \<open>
  The module \<^verbatim>\<open>playlist_logic.py\<close> works on dictionaries from strings to arbitrary
  Python objects. The values modelled here are \<^verbatim>\<open>None\<close>, booleans, (unbounded) integers,
  strings and lists of strings (the shape of the \<^verbatim>\<open>tags\<close> field). Floats as field
  values, nested lists and nested dictionaries are outside the model; the floats the
  module computes itself are modelled in the section on statistics. A character is a code point below 256; the
  string functions below follow CPython on that range.

  A dictionary is an association list in insertion order; a lookup takes the first entry
  of a key, and a Python dictionary has each key once.
\<close>

datatype pyval = VNone | VBool bool | VInt int | VStr string | VList "string list"

datatype error = TypeError | KeyError | IndexError | ZeroDivisionError | OverflowError

type_synonym ('k, 'v) dict = "('k \<times> 'v) list"

type_synonym song = "(string, pyval) dict"

type_synonym profile = "(string, pyval) dict"

type_synonym playlist_map = "(string, song list) dict"

text \<open>\<^verbatim>\<open>d.get(k, dflt)\<close>\<close>

definition dict_get :: "('k, 'v) dict \<Rightarrow> 'k \<Rightarrow> 'v \<Rightarrow> 'v" where
  "dict_get d k dflt = (case map_of d k of None \<Rightarrow> dflt | Some v \<Rightarrow> v)"

text \<open>\<^verbatim>\<open>d[k] = v\<close>: an existing key keeps its position, a new key goes to the end.\<close>

fun dict_set :: "('k, 'v) dict \<Rightarrow> 'k \<Rightarrow> 'v \<Rightarrow> ('k, 'v) dict" where
  "dict_set [] k v = [(k, v)]"
| "dict_set ((k', v') # d) k v =
     (if k' = k then (k', v) # d else (k', v') # dict_set d k v)"

text \<open>\<^verbatim>\<open>d[k]\<close>, which raises \<^verbatim>\<open>KeyError\<close> on a missing key.\<close>

definition dict_item :: "('k, 'v) dict \<Rightarrow> 'k \<Rightarrow> error + 'v" where
  "dict_item d k = (case map_of d k of None \<Rightarrow> Inl KeyError | Some v \<Rightarrow> Inr v)"

definition dict_keys :: "('k, 'v) dict \<Rightarrow> 'k list" where
  "dict_keys d = map fst d"

subsection \<open>Truth value, equality, ordering\<close>


text \<open>A boolean is an integer in Python: \<^verbatim>\<open>True == 1\<close>, \<^verbatim>\<open>True + 1 == 2\<close>.\<close>

fun as_int :: "pyval \<Rightarrow> int option" where
  "as_int (VInt i) = Some i"
| "as_int (VBool b) = Some (if b then 1 else 0)"
| "as_int VNone = None"
| "as_int (VStr s) = None"
| "as_int (VList xs) = None"

text \<open>\<^verbatim>\<open>a == b\<close>, which never raises.\<close>

fun py_eq :: "pyval \<Rightarrow> pyval \<Rightarrow> bool" where
  "py_eq VNone VNone = True"
| "py_eq (VStr s) (VStr t) = (s = t)"
| "py_eq (VList xs) (VList ys) = (xs = ys)"
| "py_eq a b = (case (as_int a, as_int b) of (Some i, Some j) \<Rightarrow> i = j | _ \<Rightarrow> False)"

text \<open>
  Sequences compare lexicographically: the first position where they differ decides, and
  a proper prefix is smaller.
\<close>

fun lex_le :: "('a \<Rightarrow> 'a \<Rightarrow> bool) \<Rightarrow> 'a list \<Rightarrow> 'a list \<Rightarrow> bool" where
  "lex_le lt [] ys = True"
| "lex_le lt (x # xs) [] = False"
| "lex_le lt (x # xs) (y # ys) = (if x = y then lex_le lt xs ys else lt x y)"

definition char_lt :: "char \<Rightarrow> char \<Rightarrow> bool" where
  "char_lt c d = ((of_char c :: nat) < of_char d)"

definition str_le :: "string \<Rightarrow> string \<Rightarrow> bool" where
  "str_le s t = lex_le char_lt s t"

definition str_lt :: "string \<Rightarrow> string \<Rightarrow> bool" where
  "str_lt s t = (s \<noteq> t \<and> str_le s t)"

text \<open>
  \<^verbatim>\<open>a <= b\<close>: numbers with numbers, strings with strings, lists with lists; every other
  pair raises \<^verbatim>\<open>TypeError\<close> (also \<^verbatim>\<open>None <= None\<close>).
\<close>

fun py_le :: "pyval \<Rightarrow> pyval \<Rightarrow> error + bool" where
  "py_le (VStr s) (VStr t) = Inr (str_le s t)"
| "py_le (VList xs) (VList ys) = Inr (lex_le str_lt xs ys)"
| "py_le a b = (case (as_int a, as_int b) of (Some i, Some j) \<Rightarrow> Inr (i \<le> j) | _ \<Rightarrow> Inl TypeError)"

text \<open>\<^verbatim>\<open>a >= b\<close>\<close>

definition py_ge :: "pyval \<Rightarrow> pyval \<Rightarrow> error + bool" where
  "py_ge a b = py_le b a"

subsection \<open>Strings\<close>

text \<open>\<^verbatim>\<open>str.isspace\<close> on one character, the set \<^verbatim>\<open>str.strip()\<close> removes.\<close>

definition is_space :: "char \<Rightarrow> bool" where
  "is_space c = (let n = (of_char c :: nat) in
     (9 \<le> n \<and> n \<le> 13) \<or> (28 \<le> n \<and> n \<le> 32) \<or> n = 133 \<or> n = 160)"

text \<open>\<^verbatim>\<open>s.strip()\<close>\<close>

definition strip :: "string \<Rightarrow> string" where
  "strip s = rev (dropWhile is_space (rev (dropWhile is_space s)))"

definition lower_char :: "char \<Rightarrow> char" where
  "lower_char c = (let n = (of_char c :: nat) in
     if (65 \<le> n \<and> n \<le> 90) \<or> (192 \<le> n \<and> n \<le> 214) \<or> (216 \<le> n \<and> n \<le> 222)
     then char_of (n + 32) else c)"

text \<open>\<^verbatim>\<open>s.lower()\<close>\<close>

definition lower :: "string \<Rightarrow> string" where
  "lower s = map lower_char s"

fun starts_with :: "string \<Rightarrow> string \<Rightarrow> bool" where
  "starts_with s [] = True"
| "starts_with [] (k # ks) = False"
| "starts_with (c # cs) (k # ks) = (c = k \<and> starts_with cs ks)"

text \<open>\<^verbatim>\<open>k in s\<close> for two strings: \<open>k\<close> occurs in \<open>s\<close> as a contiguous substring.\<close>

fun is_substring :: "string \<Rightarrow> string \<Rightarrow> bool" where
  "is_substring k [] = (k = [])"
| "is_substring k (c # cs) = (starts_with (c # cs) k \<or> is_substring k cs)"

text \<open>
  \<^verbatim>\<open>k in v\<close> for a string \<open>k\<close>: substring test on a string, membership on a list;
  \<^verbatim>\<open>None\<close>, booleans and integers are not iterable.
\<close>

fun py_in :: "string \<Rightarrow> pyval \<Rightarrow> error + bool" where
  "py_in k (VStr s) = Inr (is_substring k s)"
| "py_in k (VList xs) = Inr (k \<in> set xs)"
| "py_in k v = Inl TypeError"

text \<open>
  \<^verbatim>\<open>any(k in v for k in keywords)\<close>: the generator stops at the first hit, and an
  exception of a membership test leaves it.
\<close>

fun any_in :: "string list \<Rightarrow> pyval \<Rightarrow> error + bool" where
  "any_in [] v = Inr False"
| "any_in (k # ks) v =
     (case py_in k v of
        Inl e \<Rightarrow> Inl e
      | Inr hit \<Rightarrow> if hit then Inr True else any_in ks v)"

subsection \<open>Conversions: \<^verbatim>\<open>str()\<close> and \<^verbatim>\<open>int()\<close>\<close>

definition digit_char :: "nat \<Rightarrow> char" where
  "digit_char d = char_of (48 + d)"

fun show_nat :: "nat \<Rightarrow> string" where
  "show_nat n = (if n < 10 then [digit_char n] else show_nat (n div 10) @ [digit_char (n mod 10)])"

definition show_int :: "int \<Rightarrow> string" where
  "show_int i = (if i < 0 then CHR ''-'' # show_nat (nat (- i)) else show_nat (nat i))"

definition hex_char :: "nat \<Rightarrow> char" where
  "hex_char d = (if d < 10 then char_of (48 + d) else char_of (87 + d))"

text \<open>
  \<^verbatim>\<open>repr\<close> of a string, which \<^verbatim>\<open>str\<close> of a list shows for each element: double quotes
  when the string has a single quote and no double quote, single quotes otherwise;
  the quote and the backslash escaped, control and non-printable characters as escapes.
\<close>

definition quote_of :: "string \<Rightarrow> char" where
  "quote_of s = (if CHR 0x27 \<in> set s \<and> CHR 0x22 \<notin> set s then CHR 0x22 else CHR 0x27)"

definition repr_char :: "char \<Rightarrow> char \<Rightarrow> string" where
  "repr_char q c = (let n = (of_char c :: nat) in
     if c = q \<or> c = CHR 0x5C then [CHR 0x5C, c]
     else if n = 9 then [CHR 0x5C, CHR ''t'']
     else if n = 10 then [CHR 0x5C, CHR ''n'']
     else if n = 13 then [CHR 0x5C, CHR ''r'']
     else if n < 32 \<or> (127 \<le> n \<and> n \<le> 160) \<or> n = 173
       then [CHR 0x5C, CHR ''x'', hex_char (n div 16), hex_char (n mod 16)]
     else [c])"

definition repr_str :: "string \<Rightarrow> string" where
  "repr_str s = (let q = quote_of s in [q] @ concat (map (repr_char q) s) @ [q])"

fun join_comma :: "string list \<Rightarrow> string" where
  "join_comma [] = []"
| "join_comma [s] = s"
| "join_comma (s # t # ts) = s @ '', '' @ join_comma (t # ts)"

text \<open>
  \<^verbatim>\<open>str(v)\<close>. (CPython by default refuses to print an integer of more than 4300 digits;
  that interpreter setting is not modelled, neither here nor in \<open>int_of_str\<close>.)
\<close>

fun py_str :: "pyval \<Rightarrow> string" where
  "py_str VNone = ''None''"
| "py_str (VBool b) = (if b then ''True'' else ''False'')"
| "py_str (VInt i) = show_int i"
| "py_str (VStr s) = s"
| "py_str (VList xs) = ''['' @ join_comma (map repr_str xs) @ '']''"

text \<open>
  \<^verbatim>\<open>int(s)\<close> for a string, \<open>None\<close> where Python raises \<^verbatim>\<open>ValueError\<close>: surrounding
  whitespace is dropped (here the characters 28 to 31 do not count as whitespace), then
  an optional sign, then decimal digits, single underscores allowed between digits.
\<close>

definition is_int_space :: "char \<Rightarrow> bool" where
  "is_int_space c = (let n = (of_char c :: nat) in
     (9 \<le> n \<and> n \<le> 13) \<or> n = 32 \<or> n = 133 \<or> n = 160)"

definition is_digit :: "char \<Rightarrow> bool" where
  "is_digit c = (let n = (of_char c :: nat) in 48 \<le> n \<and> n \<le> 57)"

definition digit_val :: "char \<Rightarrow> nat" where
  "digit_val c = of_char c - 48"

fun parse_digits :: "string \<Rightarrow> nat list option" where
  "parse_digits [] = None"
| "parse_digits [c] = (if is_digit c then Some [digit_val c] else None)"
| "parse_digits (c # d # r) =
     (if \<not> is_digit c then None
      else if d = CHR ''_'' then map_option (Cons (digit_val c)) (parse_digits r)
      else map_option (Cons (digit_val c)) (parse_digits (d # r)))"

definition nat_of_digits :: "nat list \<Rightarrow> nat" where
  "nat_of_digits ds = foldl (\<lambda>acc d. 10 * acc + d) 0 ds"

definition int_of_str :: "string \<Rightarrow> int option" where
  "int_of_str s =
     (let t = rev (dropWhile is_int_space (rev (dropWhile is_int_space s)));
          neg = (t \<noteq> [] \<and> hd t = CHR ''-'');
          body = (if t \<noteq> [] \<and> (hd t = CHR ''-'' \<or> hd t = CHR ''+'') then tl t else t)
      in case parse_digits body of
           None \<Rightarrow> None
         | Some ds \<Rightarrow> Some (if neg then - int (nat_of_digits ds) else int (nat_of_digits ds)))"

section \<open>The normalizer\<close>

text \<open>
  \<^verbatim>\<open>normalize_title\<close> returns the empty string for a value that is not a string and
  the trimmed string otherwise.
\<close>

fun normalize_title :: "pyval \<Rightarrow> string" where
  "normalize_title (VStr title) = strip title"
| "normalize_title v = []"

text \<open>\<^verbatim>\<open>normalize_artist\<close> and \<^verbatim>\<open>normalize_genre\<close> are only called on strings.\<close>

definition normalize_artist :: "string \<Rightarrow> string" where
  "normalize_artist artist = (if artist = [] then [] else lower (strip artist))"

definition normalize_genre :: "string \<Rightarrow> string" where
  "normalize_genre genre = strip (lower genre)"

text \<open>
  \<^verbatim>\<open>normalize_song\<close>: the three text fields go through \<^verbatim>\<open>str()\<close> and their normalizer;
  an energy that is a string is parsed, \<^verbatim>\<open>ValueError\<close> giving 0, and any other energy is
  kept as it is; tags that are one string become a one-element list.
\<close>

definition normalize_song :: "song \<Rightarrow> song" where
  "normalize_song raw =
     (let title = normalize_title (VStr (py_str (dict_get raw ''title'' (VStr ''''))));
          artist = normalize_artist (py_str (dict_get raw ''artist'' (VStr '''')));
          genre = normalize_genre (py_str (dict_get raw ''genre'' (VStr '''')));
          energy0 = dict_get raw ''energy'' (VInt 0);
          energy = (case energy0 of
                      VStr s \<Rightarrow> (case int_of_str s of None \<Rightarrow> VInt 0 | Some i \<Rightarrow> VInt i)
                    | _ \<Rightarrow> energy0);
          tags0 = dict_get raw ''tags'' (VList []);
          tags = (case tags0 of VStr s \<Rightarrow> VList [s] | _ \<Rightarrow> tags0)
      in [(''title'', VStr title),
          (''artist'', VStr artist),
          (''genre'', VStr genre),
          (''energy'', energy),
          (''tags'', tags)])"

section \<open>The classifier\<close>

definition DEFAULT_PROFILE :: profile where
  "DEFAULT_PROFILE =
     [(''name'', VStr ''Default''),
      (''hype_min_energy'', VInt 7),
      (''chill_max_energy'', VInt 3),
      (''favorite_genre'', VStr ''rock''),
      (''include_mixed'', VBool True)]"

definition hype_keywords :: "string list" where
  "hype_keywords = [''rock'', ''punk'', ''party'']"

definition chill_keywords :: "string list" where
  "chill_keywords = [''lofi'', ''ambient'', ''sleep'']"

text \<open>
  \<^verbatim>\<open>classify_song\<close>. Both keyword tests run before the decision; in the decision
  \<^verbatim>\<open>or\<close> evaluates its operands from the left and stops at the first true one, so a
  comparison that would raise is not reached after a true operand.
\<close>

definition classify_song :: "song \<Rightarrow> profile \<Rightarrow> error + string" where
  "classify_song song profile =
     (let energy = dict_get song ''energy'' (VInt 0);
          genre = dict_get song ''genre'' (VStr '''');
          title = dict_get song ''title'' (VStr '''');
          hype_min_energy = dict_get profile ''hype_min_energy'' (VInt 7);
          chill_max_energy = dict_get profile ''chill_max_energy'' (VInt 3);
          favorite_genre = dict_get profile ''favorite_genre'' (VStr '''')
      in case any_in hype_keywords genre of
           Inl e \<Rightarrow> Inl e
         | Inr is_hype_keyword \<Rightarrow>
        (case any_in chill_keywords title of
           Inl e \<Rightarrow> Inl e
         | Inr is_chill_keyword \<Rightarrow>
        (if py_eq genre favorite_genre then Inr ''Hype''
         else case py_ge energy hype_min_energy of
           Inl e \<Rightarrow> Inl e
         | Inr hot \<Rightarrow>
        (if hot \<or> is_hype_keyword then Inr ''Hype''
         else case py_le energy chill_max_energy of
           Inl e \<Rightarrow> Inl e
         | Inr cool \<Rightarrow>
        (if cool \<or> is_chill_keyword then Inr ''Chill'' else Inr ''Mixed'')))))"

section \<open>The playlist builder\<close>

text \<open>The loop of \<^verbatim>\<open>build_playlists\<close>, with the map built so far as its state.\<close>

fun build_loop :: "song list \<Rightarrow> profile \<Rightarrow> playlist_map \<Rightarrow> error + playlist_map" where
  "build_loop [] profile playlists = Inr playlists"
| "build_loop (song # songs) profile playlists =
     (let normalized = normalize_song song in
      case classify_song normalized profile of
        Inl e \<Rightarrow> Inl e
      | Inr mood \<Rightarrow>
          (let normalized' = dict_set normalized ''mood'' (VStr mood) in
           case dict_item playlists mood of
             Inl e \<Rightarrow> Inl e
           | Inr bucket \<Rightarrow>
               build_loop songs profile (dict_set playlists mood (bucket @ [normalized']))))"

definition build_playlists :: "song list \<Rightarrow> profile \<Rightarrow> error + playlist_map" where
  "build_playlists songs profile =
     build_loop songs profile [(''Hype'', []), (''Chill'', []), (''Mixed'', [])]"

section \<open>Merging\<close>

text \<open>
  \<^verbatim>\<open>merge_playlists\<close> iterates over the Python set \<^verbatim>\<open>set(a.keys()) | set(b.keys())\<close>,
  whose iteration order depends on the string hashes of the run. The order is the
  parameter \<open>key_order\<close>: any list that enumerates that set once.
\<close>

definition key_iteration :: "string list \<Rightarrow> playlist_map \<Rightarrow> playlist_map \<Rightarrow> bool" where
  "key_iteration key_order a b =
     (distinct key_order \<and> set key_order = set (dict_keys a) \<union> set (dict_keys b))"

definition merge_playlists :: "string list \<Rightarrow> playlist_map \<Rightarrow> playlist_map \<Rightarrow> playlist_map" where
  "merge_playlists key_order a b =
     fold (\<lambda>key merged. dict_set merged key (dict_get a key [] @ dict_get b key []))
       key_order []"

section \<open>Statistics\<close>







text \<open>
  \<^verbatim>\<open>a / b\<close> for two integers is a float: the quotient rounded to the nearest double,
  ties to the even mantissa, \<^verbatim>\<open>ZeroDivisionError\<close> for a zero divisor and
  \<^verbatim>\<open>OverflowError\<close> when the rounded quotient is \<open>2 ^ 1024\<close> or more. A float is
  modelled as the rational number it denotes (so \<^verbatim>\<open>-0.0\<close> and \<^verbatim>\<open>0.0\<close>, which are
  equal in Python, are one value).

  For positive \<open>n\<close> and \<open>d\<close>, \<open>floor_log2 n d\<close> is the exponent \<open>e\<close> with
  \<open>2 ^ e \<le> n / d < 2 ^ (e + 1)\<close>; a double in that range is a multiple of
  \<open>2 ^ (e - 52)\<close>, and of \<open>2 ^ (- 1074)\<close> below the normal range.
\<close>

definition pow2 :: "int \<Rightarrow> rat" where
  "pow2 e = (if 0 \<le> e then 2 ^ nat e else 1 / 2 ^ nat (- e))"

text \<open>\<^verbatim>\<open>n.bit_length()\<close> for \<open>n \<ge> 0\<close>\<close>

function bit_length :: "int \<Rightarrow> int" where
  "bit_length n = (if n \<le> 0 then 0 else 1 + bit_length (n div 2))"
  by pat_completeness auto
termination
  by (relation "measure nat") auto

text \<open>\<open>n / d\<close> rounded to the nearest integer, a tie to the even one (\<open>d > 0\<close>).\<close>

definition round_half_even :: "int \<Rightarrow> int \<Rightarrow> int" where
  "round_half_even n d =
     (let f = n div d; r = n mod d
      in if 2 * r < d then f
         else if d < 2 * r then f + 1
         else if even f then f else f + 1)"

definition floor_log2 :: "int \<Rightarrow> int \<Rightarrow> int" where
  "floor_log2 n d =
     (let e0 = bit_length n - bit_length d
      in if (if 0 \<le> e0 then d * 2 ^ nat e0 \<le> n else d \<le> n * 2 ^ nat (- e0))
         then e0 else e0 - 1)"

text \<open>\<open>n / d / 2 ^ u\<close> rounded to the nearest integer.\<close>

definition round_scaled :: "int \<Rightarrow> int \<Rightarrow> int \<Rightarrow> int" where
  "round_scaled n d u =
     (if 0 \<le> u then round_half_even n (d * 2 ^ nat u)
      else round_half_even (n * 2 ^ nat (- u)) d)"

definition round_double :: "int \<Rightarrow> int \<Rightarrow> rat" where
  "round_double n d =
     (let u = max (floor_log2 n d) (- 1022) - 52
      in rat_of_int (round_scaled n d u) * pow2 u)"

definition py_truediv :: "int \<Rightarrow> int \<Rightarrow> error + rat" where
  "py_truediv a b =
     (if b = 0 then Inl ZeroDivisionError
      else if a = 0 then Inr 0
      else let r = round_double (abs a) (abs b)
           in if pow2 1024 \<le> r then Inl OverflowError
              else Inr (if (a < 0) = (b < 0) then r else - r))"




section \<open>Random pick and history\<close>

text \<open>
  \<^verbatim>\<open>random_choice_or_none\<close> draws from the process-wide random source. The model gives
  the set of results a call can return.
\<close>

definition random_choice_or_none :: "song list \<Rightarrow> song option set" where
  "random_choice_or_none songs = (if songs \<noteq> [] then Some ` set songs else {None})"

definition lucky_pick :: "playlist_map \<Rightarrow> string \<Rightarrow> song option set" where
  "lucky_pick playlists mode =
     (let songs_map =
            [(''hype'', dict_get playlists ''Hype'' []),
             (''chill'', dict_get playlists ''Chill'' []),
             (''any'', dict_get playlists ''Hype'' [] @ dict_get playlists ''Chill'' [])]
      in random_choice_or_none (dict_get songs_map mode []))"

text \<open>
  The counts of \<^verbatim>\<open>history_summary\<close> are keyed by whatever the \<^verbatim>\<open>mood\<close> field holds.
  Python finds a key by \<^verbatim>\<open>==\<close> (so \<^verbatim>\<open>True\<close> and \<^verbatim>\<open>1\<close> are one key), and a list
  cannot be a key.
\<close>

fun py_hashable :: "pyval \<Rightarrow> bool" where
  "py_hashable (VList xs) = False"
| "py_hashable v = True"

fun key_get :: "(pyval, 'v) dict \<Rightarrow> pyval \<Rightarrow> 'v option" where
  "key_get [] k = None"
| "key_get ((k', v') # d) k = (if py_eq k' k then Some v' else key_get d k)"

fun key_set :: "(pyval, 'v) dict \<Rightarrow> pyval \<Rightarrow> 'v \<Rightarrow> (pyval, 'v) dict" where
  "key_set [] k v = [(k, v)]"
| "key_set ((k', v') # d) k v =
     (if py_eq k' k then (k', v) # d else (k', v') # key_set d k v)"

fun history_loop :: "song list \<Rightarrow> (pyval, nat) dict \<Rightarrow> error + (pyval, nat) dict" where
  "history_loop [] counts = Inr counts"
| "history_loop (song # history) counts =
     (let mood = dict_get song ''mood'' (VStr ''Mixed'') in
      if \<not> py_hashable mood then Inl TypeError
      else history_loop history
             (key_set counts mood ((case key_get counts mood of None \<Rightarrow> 0 | Some n \<Rightarrow> n) + 1)))"

definition history_summary :: "song list \<Rightarrow> error + (pyval, nat) dict" where
  "history_summary history =
     history_loop history [(VStr ''Hype'', 0), (VStr ''Chill'', 0), (VStr ''Mixed'', 0)]"

section \<open>Notions of the specification\<close>

text \<open>
  A profile with its missing classifier options filled in: an option the record has is
  kept, an option it lacks gets the default.
\<close>

definition fill_missing :: "profile \<Rightarrow> string \<Rightarrow> pyval \<Rightarrow> profile" where
  "fill_missing p k v = (if k \<in> set (dict_keys p) then p else dict_set p k v)"

definition profile_with_defaults :: "profile \<Rightarrow> profile" where
  "profile_with_defaults p =
     fill_missing (fill_missing (fill_missing p ''hype_min_energy'' (VInt 7))
       ''chill_max_energy'' (VInt 3)) ''favorite_genre'' (VStr '''')"

text \<open>The integers of Python: \<^verbatim>\<open>isinstance(v, int)\<close>, which holds for booleans too.\<close>

fun is_py_int :: "pyval \<Rightarrow> bool" where
  "is_py_int (VInt i) = True"
| "is_py_int (VBool b) = True"
| "is_py_int v = False"

text \<open>
  The pool \<^verbatim>\<open>lucky_pick\<close> is specified to draw from: the Hype songs for mode "hype", the
  Chill songs for "chill", Hype followed by Chill for "any", nothing for another mode.
\<close>

definition pick_pool :: "playlist_map \<Rightarrow> string \<Rightarrow> song list" where
  "pick_pool playlists mode =
     (if mode = ''hype'' then dict_get playlists ''Hype'' []
      else if mode = ''chill'' then dict_get playlists ''Chill'' []
      else if mode = ''any'' then dict_get playlists ''Hype'' [] @ dict_get playlists ''Chill'' []
      else [])"

text \<open>
  The songs of one mood in the result of the builder: the input songs, in input order,
  that classify (after normalization) as that mood, each normalized and with the mood
  attached as its \<^verbatim>\<open>mood\<close> field.
\<close>

definition labelled :: "song list \<Rightarrow> profile \<Rightarrow> string \<Rightarrow> song list" where
  "labelled songs profile mood =
     map (\<lambda>s. dict_set (normalize_song s) ''mood'' (VStr mood))
       (filter (\<lambda>s. classify_song (normalize_song s) profile = Inr mood) songs)"



text \<open>The mood a history entry is counted under: its mood field, "Mixed" when it has none.\<close>

definition mood_of :: "song \<Rightarrow> pyval" where
  "mood_of song = dict_get song ''mood'' (VStr ''Mixed'')"

text \<open>The number of history entries whose mood equals a label.\<close>

definition tally :: "song list \<Rightarrow> pyval \<Rightarrow> nat" where
  "tally history label = length (filter (\<lambda>s. py_eq (mood_of s) label) history)"






section \<open>Dictionaries and strings: basic facts\<close>

declare show_nat.simps [simp del]

declare bit_length.simps [simp del]

lemma map_of_dict_set: "map_of (dict_set d k v) = (map_of d)(k \<mapsto> v)"
  by (induction d k v rule: dict_set.induct) (auto simp: fun_eq_iff)

lemma dict_get_dict_set:
  "dict_get (dict_set d k v) k' dflt = (if k' = k then v else dict_get d k' dflt)"
  by (simp add: dict_get_def map_of_dict_set)

lemma dict_keys_dict_set:
  "dict_keys (dict_set d k v) = (if k \<in> set (dict_keys d) then dict_keys d else dict_keys d @ [k])"
  by (induction d k v rule: dict_set.induct) (auto simp: dict_keys_def)

lemma dict_get_absent: "k \<notin> set (dict_keys p) \<Longrightarrow> dict_get p k dflt = dflt"
  by (simp add: dict_get_def dict_keys_def map_of_eq_None_iff[THEN iffD2])



lemma any_in_str: "any_in ks (VStr s) = Inr (\<exists>k \<in> set ks. is_substring k s)"
  by (induction ks) auto

lemma dict_get_fill_missing:
  "dict_get (fill_missing p k v) k' dflt =
     (if k' = k \<and> k \<notin> set (dict_keys p) then v else dict_get p k' dflt)"
  by (auto simp: fill_missing_def dict_get_dict_set)

lemma set_dict_keys_fill_missing:
  "set (dict_keys (fill_missing p k v)) = insert k (set (dict_keys p))"
  by (auto simp: fill_missing_def dict_keys_dict_set)

section \<open>The classifier: decision order and defaults\<close>

text \<open>The decision of the classifier on well-typed fields, with its executable tests.\<close>

lemma classify_song_text:
  assumes "dict_get song ''genre'' (VStr '''') = VStr genre"
    and "dict_get song ''title'' (VStr '''') = VStr title"
    and "as_int (dict_get song ''energy'' (VInt 0)) = Some energy"
    and "as_int (dict_get profile ''hype_min_energy'' (VInt 7)) = Some hype_min"
    and "as_int (dict_get profile ''chill_max_energy'' (VInt 3)) = Some chill_max"
  shows "classify_song song profile = Inr
     (if dict_get profile ''favorite_genre'' (VStr '''') = VStr genre \<or> hype_min \<le> energy
         \<or> (\<exists>k \<in> set hype_keywords. is_substring k genre)
      then ''Hype''
      else if energy \<le> chill_max \<or> (\<exists>k \<in> set chill_keywords. is_substring k title)
      then ''Chill''
      else ''Mixed'')"
proof -
  have fav: "py_eq (VStr genre) fav \<longleftrightarrow> fav = VStr genre" for fav
    by (cases fav) auto
  have ge: "py_ge (dict_get song ''energy'' (VInt 0)) (dict_get profile ''hype_min_energy'' (VInt 7))
      = Inr (hype_min \<le> energy)"
    using assms(3,4) unfolding py_ge_def
    by (cases "dict_get song ''energy'' (VInt 0)";
        cases "dict_get profile ''hype_min_energy'' (VInt 7)") auto
  have le: "py_le (dict_get song ''energy'' (VInt 0)) (dict_get profile ''chill_max_energy'' (VInt 3))
      = Inr (energy \<le> chill_max)"
    using assms(3,5)
    by (cases "dict_get song ''energy'' (VInt 0)";
        cases "dict_get profile ''chill_max_energy'' (VInt 3)") auto
  show ?thesis
    unfolding classify_song_def Let_def assms(1,2) any_in_str fav ge le
    by (simp add: eq_commute[of "VStr genre"])
qed





text \<open>
  C5. For every song and every profile record, \<open>classify_song\<close> gives the same result on
  the profile as on the profile in which each missing classifier field has its default
  value: \<open>hype_min_energy\<close> 7, \<open>chill_max_energy\<close> 3, \<open>favorite_genre\<close> the empty string.
\<close>

theorem classify_song_profile_defaults:
  "classify_song song profile = classify_song song (profile_with_defaults profile)"
proof -
  have "dict_get (profile_with_defaults profile) ''hype_min_energy'' (VInt 7)
          = dict_get profile ''hype_min_energy'' (VInt 7)"
       "dict_get (profile_with_defaults profile) ''chill_max_energy'' (VInt 3)
          = dict_get profile ''chill_max_energy'' (VInt 3)"
       "dict_get (profile_with_defaults profile) ''favorite_genre'' (VStr '''')
          = dict_get profile ''favorite_genre'' (VStr '''')"
    by (auto simp: profile_with_defaults_def dict_get_fill_missing dict_get_absent
        set_dict_keys_fill_missing)
  then show ?thesis by (simp add: classify_song_def)
qed

text \<open>
  A profile with only a favorite genre classifies as the same profile with the two
  default thresholds written out.
\<close>

theorem classify_song_profile_defaults_witness:
  "classify_song [(''genre'', VStr ''pop''), (''energy'', VInt 5)] [(''favorite_genre'', VStr ''jazz'')] =
   classify_song [(''genre'', VStr ''pop''), (''energy'', VInt 5)]
     [(''favorite_genre'', VStr ''jazz''), (''hype_min_energy'', VInt 7),
      (''chill_max_energy'', VInt 3)]"
  using classify_song_profile_defaults [of "[(''genre'', VStr ''pop''), (''energy'', VInt 5)]"
      "[(''favorite_genre'', VStr ''jazz'')]"]
  by (simp add: profile_with_defaults_def fill_missing_def dict_keys_def)

text \<open>
  C10. A song whose genre field is the empty string (and whose title is text), with a
  profile that has no \<open>favorite_genre\<close> key, is "Hype" whatever its energy is, even an
  energy that is not a number: the empty genre equals the fallback favorite genre, and
  the energy is not looked at.
\<close>

theorem classify_song_empty_genre:
  assumes "map_of song ''genre'' = Some (VStr '''')"
    and "map_of profile ''favorite_genre'' = None"
    and "dict_get song ''title'' (VStr '''') = VStr title"
  shows "classify_song song profile = Inr ''Hype''"
  using assms by (simp add: classify_song_def dict_get_def any_in_str)

theorem classify_song_empty_genre_witness:
  "map_of [(''genre'', VStr ''''), (''energy'', VInt 0)] ''genre'' = Some (VStr '''')
   \<and> map_of [(''hype_min_energy'', VInt 7)] ''favorite_genre'' = None
   \<and> dict_get [(''genre'', VStr ''''), (''energy'', VInt 0)] ''title'' (VStr '''') = VStr ''''
   \<and> classify_song [(''genre'', VStr ''''), (''energy'', VInt 0)] [(''hype_min_energy'', VInt 7)]
       = Inr ''Hype''"
  using classify_song_empty_genre [of "[(''genre'', VStr ''''), (''energy'', VInt 0)]"
      "[(''hype_min_energy'', VInt 7)]" "''''"]
  by (simp add: dict_get_def)

section \<open>The normalizer: trimmed and lower-cased text, coerced energy\<close>

lemma of_char_lower_char:
  "(of_char (lower_char c) :: nat) =
     (let n = of_char c in
      if (65 \<le> n \<and> n \<le> 90) \<or> (192 \<le> n \<and> n \<le> 214) \<or> (216 \<le> n \<and> n \<le> 222)
      then n + 32 else n)"
  by (auto simp: lower_char_def Let_def)

lemma lower_char_idem: "lower_char (lower_char c) = lower_char c"
proof -
  have "(of_char (lower_char (lower_char c)) :: nat) = of_char (lower_char c)"
    unfolding of_char_lower_char [of "lower_char c"]
    by (auto simp: of_char_lower_char Let_def)
  then show ?thesis by (metis of_char_eq_iff)
qed

lemma is_space_lower_char: "is_space (lower_char c) = is_space c"
  unfolding is_space_def of_char_lower_char by (auto simp: Let_def)

lemma lower_idem: "lower (lower s) = lower s"
  by (simp add: lower_def lower_char_idem)

lemma dropWhile_space_lower:
  "dropWhile is_space (lower s) = lower (dropWhile is_space s)"
  by (simp add: lower_def dropWhile_map comp_def is_space_lower_char)

text \<open>Lower-casing and trimming commute: no letter becomes or stops being whitespace.\<close>

lemma strip_lower: "strip (lower s) = lower (strip s)"
proof -
  have "rev (lower s) = lower (rev s)" for s by (simp add: lower_def rev_map)
  then show ?thesis
    by (metis dropWhile_space_lower strip_def)
qed

lemma dropWhile_fixed: "xs = [] \<or> \<not> P (hd xs) \<Longrightarrow> dropWhile P xs = xs"
  by (cases xs) auto

text \<open>A trimmed string neither starts nor ends with whitespace.\<close>

lemma strip_ends: "strip s = [] \<or> (\<not> is_space (hd (strip s)) \<and> \<not> is_space (last (strip s)))"
proof -
  define t where "t = dropWhile is_space s"
  define u where "u = dropWhile is_space (rev t)"
  have st: "strip s = rev u" by (simp add: strip_def t_def u_def)
  show ?thesis
  proof (cases "u = []")
    case True
    then show ?thesis by (simp add: st)
  next
    case False
    then have hu: "\<not> is_space (hd u)" unfolding u_def by (metis hd_dropWhile)
    from False have tne: "t \<noteq> []" unfolding u_def by auto
    then have ht: "\<not> is_space (hd t)" unfolding t_def by (metis hd_dropWhile)
    obtain pre where "rev t = pre @ u"
      unfolding u_def by (metis takeWhile_dropWhile_id)
    then have "last (rev t) = last u" using False by simp
    then have "last u = hd t" using tne by (simp add: last_rev)
    then show ?thesis using hu ht False by (simp add: st hd_rev last_rev)
  qed
qed

lemma strip_idem: "strip (strip s) = strip s"
proof -
  let ?r = "strip s"
  from strip_ends [of s] have a: "dropWhile is_space ?r = ?r"
    by (intro dropWhile_fixed) auto
  from strip_ends [of s] have "rev ?r = [] \<or> \<not> is_space (hd (rev ?r))"
    by (auto simp: hd_rev)
  then have b: "dropWhile is_space (rev ?r) = rev ?r" by (rule dropWhile_fixed)
  show ?thesis
    unfolding strip_def [of "strip s"] a b by simp
qed

lemma normalize_artist_lower: "normalize_artist s = lower (strip s)"
  by (simp add: normalize_artist_def strip_def lower_def)

lemma normalize_genre_lower: "normalize_genre s = lower (strip s)"
  by (simp add: normalize_genre_def strip_lower)

text \<open>
  C4, as the code has it. For every raw song record, \<open>normalize_song\<close> produces a record
  with the five fields title, artist, genre, energy, tags, in which the title is the
  trimmed text of the raw title, case unchanged; artist and genre are the trimmed,
  lower-cased text of the raw fields, so lower-casing or trimming them again changes
  nothing; the energy is 0 when the raw record has none, the parsed integer when the raw
  energy is text that parses, 0 when it is text that does not parse, and the raw value
  itself when that is not text. So the energy is an integer exactly when the raw energy is
  missing, text, or an integer already.
\<close>

theorem normalize_song_fields:
  "dict_keys (normalize_song raw) = [''title'', ''artist'', ''genre'', ''energy'', ''tags'']
   \<and> (\<exists>title. map_of (normalize_song raw) ''title'' = Some (VStr title)
        \<and> title = strip (py_str (dict_get raw ''title'' (VStr '''')))
        \<and> strip title = title)
   \<and> (\<exists>artist. map_of (normalize_song raw) ''artist'' = Some (VStr artist)
        \<and> artist = lower (strip (py_str (dict_get raw ''artist'' (VStr ''''))))
        \<and> lower artist = artist \<and> strip artist = artist)
   \<and> (\<exists>genre. map_of (normalize_song raw) ''genre'' = Some (VStr genre)
        \<and> genre = lower (strip (py_str (dict_get raw ''genre'' (VStr ''''))))
        \<and> lower genre = genre \<and> strip genre = genre)
   \<and> (\<exists>energy. map_of (normalize_song raw) ''energy'' = Some energy
        \<and> energy = (case map_of raw ''energy'' of
             None \<Rightarrow> VInt 0
           | Some (VStr s) \<Rightarrow> (case int_of_str s of None \<Rightarrow> VInt 0 | Some i \<Rightarrow> VInt i)
           | Some v \<Rightarrow> v)
        \<and> (is_py_int energy \<longleftrightarrow>
             (case map_of raw ''energy'' of
                None \<Rightarrow> True | Some (VStr s) \<Rightarrow> True | Some v \<Rightarrow> is_py_int v)))"
  by (auto simp: normalize_song_def Let_def dict_keys_def normalize_artist_lower
      normalize_genre_lower strip_idem lower_idem strip_lower[symmetric] dict_get_def
      split: option.splits pyval.splits)

theorem normalize_song_fields_witness:
  "map_of (normalize_song [(''title'', VStr '' Go Loud ''), (''artist'', VStr '' The Crows''),
      (''genre'', VStr ''Rock ''), (''energy'', VStr ''9'')]) ''title'' = Some (VStr ''Go Loud'')
   \<and> map_of (normalize_song [(''title'', VStr '' Go Loud ''), (''artist'', VStr '' The Crows''),
      (''genre'', VStr ''Rock ''), (''energy'', VStr ''9'')]) ''artist'' = Some (VStr ''the crows'')
   \<and> map_of (normalize_song [(''title'', VStr '' Go Loud ''), (''artist'', VStr '' The Crows''),
      (''genre'', VStr ''Rock ''), (''energy'', VStr ''9'')]) ''genre'' = Some (VStr ''rock'')
   \<and> map_of (normalize_song [(''title'', VStr '' Go Loud ''), (''artist'', VStr '' The Crows''),
      (''genre'', VStr ''Rock ''), (''energy'', VStr ''9'')]) ''energy'' = Some (VInt 9)"
proof -
  have s: "strip '' Go Loud '' = ''Go Loud''" "lower (strip '' The Crows'') = ''the crows''"
    "lower (strip ''Rock '') = ''rock''"
    by code_simp+
  have i: "int_of_str ''9'' = Some 9"
    by code_simp
  show ?thesis
    using normalize_song_fields [of "[(''title'', VStr '' Go Loud ''),
      (''artist'', VStr '' The Crows''), (''genre'', VStr ''Rock ''), (''energy'', VStr ''9'')]"]
    by (simp add: dict_get_def s i)
qed

text \<open>
  The claim that the energy is always an integer fails on a raw energy that is neither
  text nor a number: \<^verbatim>\<open>None\<close> stays \<^verbatim>\<open>None\<close>.
\<close>

theorem normalize_song_energy_counterexample:
  "map_of (normalize_song [(''title'', VStr ''Intro''), (''energy'', VNone)]) ''energy'' = Some VNone
   \<and> \<not> is_py_int VNone"
  by (simp add: normalize_song_def dict_get_def)

section \<open>Merging two playlist maps\<close>

lemma merge_fold_lookup:
  "map_of (fold (\<lambda>key merged. dict_set merged key (f key)) ks acc) key =
     (if key \<in> set ks then Some (f key) else map_of acc key)"
  by (induction ks arbitrary: acc) (auto simp: map_of_dict_set)

lemma merge_fold_keys:
  "set (dict_keys (fold (\<lambda>key merged. dict_set merged key (f key)) ks acc)) =
     set (dict_keys acc) \<union> set ks"
  by (induction ks arbitrary: acc) (auto simp: dict_keys_dict_set)

lemma merge_fold_distinct:
  "distinct (dict_keys acc) \<Longrightarrow>
   distinct (dict_keys (fold (\<lambda>key merged. dict_set merged key (f key)) ks acc))"
  by (induction ks arbitrary: acc) (auto simp: dict_keys_dict_set)

text \<open>
  C2, as the code has it. For all playlist maps \<open>a\<close> and \<open>b\<close>, in whatever order the
  union of their keys is iterated, the keys of \<open>merge_playlists a b\<close> are the keys of
  \<open>a\<close> and of \<open>b\<close>, each once, and the item of a key of that union is \<open>a\<close>'s sequence
  (empty if absent) followed by \<open>b\<close>'s sequence (empty if absent). A key of neither map
  is no key of the result: the item raises \<^verbatim>\<open>KeyError\<close>. So the "Hype" item is the
  concatenation of the two "Hype" sequences when one of the maps has the key "Hype".
\<close>

theorem merge_playlists_keys_and_items:
  assumes "key_iteration key_order a b"
  shows "set (dict_keys (merge_playlists key_order a b)) = set (dict_keys a) \<union> set (dict_keys b)
     \<and> distinct (dict_keys (merge_playlists key_order a b))
     \<and> (\<forall>key. dict_item (merge_playlists key_order a b) key =
          (if key \<in> set (dict_keys a) \<union> set (dict_keys b)
           then Inr (dict_get a key [] @ dict_get b key [])
           else Inl KeyError))"
proof -
  from assms have ks: "set key_order = set (dict_keys a) \<union> set (dict_keys b)"
    by (simp add: key_iteration_def)
  have e: "dict_keys ([] :: playlist_map) = []" by (simp add: dict_keys_def)
  have 1: "set (dict_keys (merge_playlists key_order a b)) = set (dict_keys a) \<union> set (dict_keys b)"
    unfolding merge_playlists_def merge_fold_keys e ks by simp
  have 2: "distinct (dict_keys (merge_playlists key_order a b))"
    unfolding merge_playlists_def by (rule merge_fold_distinct) (simp add: e)
  have 3: "dict_item (merge_playlists key_order a b) key =
          (if key \<in> set (dict_keys a) \<union> set (dict_keys b)
           then Inr (dict_get a key [] @ dict_get b key [])
           else Inl KeyError)" for key
    unfolding merge_playlists_def dict_item_def merge_fold_lookup ks by simp
  from 1 2 3 show ?thesis by blast
qed

theorem merge_playlists_keys_and_items_witness:
  "key_iteration [''Mixed'', ''Hype''] [(''Hype'', [[(''title'', VStr ''a'')]])]
      [(''Mixed'', [[(''title'', VStr ''b'')]]), (''Hype'', [[(''title'', VStr ''c'')]])]
   \<and> dict_item (merge_playlists [''Mixed'', ''Hype''] [(''Hype'', [[(''title'', VStr ''a'')]])]
        [(''Mixed'', [[(''title'', VStr ''b'')]]), (''Hype'', [[(''title'', VStr ''c'')]])]) ''Hype''
       = Inr [[(''title'', VStr ''a'')], [(''title'', VStr ''c'')]]"
proof -
  have k: "key_iteration [''Mixed'', ''Hype''] [(''Hype'', [[(''title'', VStr ''a'')]])]
      [(''Mixed'', [[(''title'', VStr ''b'')]]), (''Hype'', [[(''title'', VStr ''c'')]])]"
    by (auto simp: key_iteration_def dict_keys_def)
  show ?thesis
    using k merge_playlists_keys_and_items [OF k] by (simp add: dict_get_def dict_keys_def)
qed

text \<open>
  Two maps without the key "Hype", here two empty maps: the merged map has no "Hype"
  item, while the concatenation of the two defaults is the empty sequence.
\<close>

theorem merge_playlists_hype_counterexample:
  "key_iteration [] [] []
   \<and> dict_item (merge_playlists [] [] []) ''Hype'' = Inl KeyError
   \<and> dict_get ([] :: playlist_map) ''Hype'' [] @ dict_get ([] :: playlist_map) ''Hype'' [] = []"
  by (simp add: key_iteration_def dict_keys_def merge_playlists_def dict_item_def dict_get_def)

section \<open>The random pick\<close>

text \<open>
  C8. For every playlist map and mode string, the results \<open>lucky_pick\<close> can return are:
  the absent result alone when the pool of the mode is empty, and otherwise the elements
  of the pool, and never the absent result. The pool is "Hype" for mode "hype", "Chill"
  for "chill", "Hype" then "Chill" for "any" and empty for any other mode; the "Mixed"
  sequence plays no part. On the empty map with mode "hype" the result is absent.
\<close>

theorem lucky_pick_pool:
  "lucky_pick playlists mode =
     (if pick_pool playlists mode = [] then {None} else Some ` set (pick_pool playlists mode))
   \<and> lucky_pick (dict_set playlists ''Mixed'' mixed) mode = lucky_pick playlists mode
   \<and> lucky_pick [] ''hype'' = {None}"
  by (simp add: lucky_pick_def pick_pool_def random_choice_or_none_def dict_get_def
      map_of_dict_set)

theorem lucky_pick_pool_witness:
  "lucky_pick [(''Hype'', [[(''title'', VStr ''a'')]]), (''Chill'', [[(''title'', VStr ''b'')]]),
      (''Mixed'', [[(''title'', VStr ''c'')]])] ''any''
     = {Some [(''title'', VStr ''a'')], Some [(''title'', VStr ''b'')]}"
  using lucky_pick_pool [of "[(''Hype'', [[(''title'', VStr ''a'')]]),
      (''Chill'', [[(''title'', VStr ''b'')]]), (''Mixed'', [[(''title'', VStr ''c'')]])]" "''any''"]
  by (simp add: pick_pool_def dict_get_def)

section \<open>The playlist builder\<close>

lemma any_in_error: "any_in ks v = Inl e \<Longrightarrow> e = TypeError"
  by (induction ks) (auto split: sum.splits if_splits elim: py_in.elims)

lemma py_le_error: "py_le a b = Inl e \<Longrightarrow> e = TypeError"
  by (cases a; cases b) (auto split: if_splits)

lemma classify_song_error: "classify_song s p = Inl e \<Longrightarrow> e = TypeError"
  by (auto simp: classify_song_def Let_def py_ge_def split: sum.splits if_splits
      dest: any_in_error py_le_error)

lemma classify_song_moods:
  "classify_song s p = Inr mood \<Longrightarrow> mood = ''Hype'' \<or> mood = ''Chill'' \<or> mood = ''Mixed''"
  by (auto simp: classify_song_def Let_def split: sum.splits if_splits)

lemma labelled_Nil: "labelled [] profile mood = []"
  by (simp add: labelled_def)

lemma labelled_Cons:
  "labelled (s # songs) profile mood =
     (if classify_song (normalize_song s) profile = Inr mood
      then dict_set (normalize_song s) ''mood'' (VStr mood) # labelled songs profile mood
      else labelled songs profile mood)"
  by (simp add: labelled_def)

lemma build_loop_result:
  "build_loop songs profile [(''Hype'', h), (''Chill'', c), (''Mixed'', m)] =
     (if \<forall>s \<in> set songs. \<exists>mood. classify_song (normalize_song s) profile = Inr mood
      then Inr [(''Hype'', h @ labelled songs profile ''Hype''),
                (''Chill'', c @ labelled songs profile ''Chill''),
                (''Mixed'', m @ labelled songs profile ''Mixed'')]
      else Inl TypeError)"
proof (induction songs arbitrary: h c m)
  case Nil
  then show ?case by (simp add: labelled_Nil)
next
  case (Cons s songs)
  show ?case
  proof (cases "classify_song (normalize_song s) profile")
    case (Inl e)
    then have "e = TypeError" by (rule classify_song_error)
    with Inl show ?thesis by auto
  next
    case (Inr mood)
    from classify_song_moods [OF Inr] consider
      "mood = ''Hype''" | "mood = ''Chill''" | "mood = ''Mixed''" by blast
    then show ?thesis
    proof cases
      case 1
      with Inr show ?thesis
        by (simp add: dict_item_def labelled_Cons Cons.IH)
    next
      case 2
      with Inr show ?thesis
        by (simp add: dict_item_def labelled_Cons Cons.IH)
    next
      case 3
      with Inr show ?thesis
        by (simp add: dict_item_def labelled_Cons Cons.IH)
    qed
  qed
qed
lemma classify_normalized_returns:
  assumes "case map_of raw ''energy'' of
             None \<Rightarrow> True | Some (VStr s) \<Rightarrow> True | Some v \<Rightarrow> is_py_int v"
    and "is_py_int (dict_get profile ''hype_min_energy'' (VInt 7))"
    and "is_py_int (dict_get profile ''chill_max_energy'' (VInt 3))"
  shows "\<exists>mood. classify_song (normalize_song raw) profile = Inr mood"
proof -
  have int: "is_py_int v \<Longrightarrow> \<exists>i. as_int v = Some i" for v
    by (cases v) auto
  obtain genre where g: "dict_get (normalize_song raw) ''genre'' (VStr '''') = VStr genre"
    by (simp add: normalize_song_def Let_def dict_get_def)
  obtain title where t: "dict_get (normalize_song raw) ''title'' (VStr '''') = VStr title"
    by (simp add: normalize_song_def Let_def dict_get_def)
  have "is_py_int (dict_get (normalize_song raw) ''energy'' (VInt 0))"
  proof (cases "map_of raw ''energy''")
    case None
    then show ?thesis by (simp add: normalize_song_def Let_def dict_get_def)
  next
    case (Some v)
    with assms(1) show ?thesis
      by (cases v) (simp_all add: normalize_song_def Let_def dict_get_def split: option.splits)
  qed
  then obtain e where e: "as_int (dict_get (normalize_song raw) ''energy'' (VInt 0)) = Some e"
    using int by blast
  obtain h where h: "as_int (dict_get profile ''hype_min_energy'' (VInt 7)) = Some h"
    using int [OF assms(2)] by blast
  obtain c where c: "as_int (dict_get profile ''chill_max_energy'' (VInt 3)) = Some c"
    using int [OF assms(3)] by blast
  show ?thesis
    unfolding classify_song_text [OF g t e h c] by blast
qed

text \<open>
  C6, as the code has it. For every list of raw songs and every profile: when
  \<open>classify_song\<close> returns a mood for each normalized song (which it does when every raw
  energy is missing, text or an integer and the two thresholds of the profile are
  integers, see \<open>classify_normalized_returns\<close>), \<open>build_playlists\<close> returns the map with
  exactly the keys "Hype", "Chill", "Mixed", in that order, where each input song, in
  input order, is normalized, classified on the normalized record, given the mood as its
  mood field, and appended to the sequence of that mood. When \<open>classify_song\<close> raises on
  some normalized song, \<open>build_playlists\<close> raises \<^verbatim>\<open>TypeError\<close>. On the empty list the
  result is the map of three empty sequences.
\<close>

theorem build_playlists_result:
  "build_playlists songs profile =
     (if \<forall>s \<in> set songs. \<exists>mood. classify_song (normalize_song s) profile = Inr mood
      then Inr [(''Hype'', labelled songs profile ''Hype''),
                (''Chill'', labelled songs profile ''Chill''),
                (''Mixed'', labelled songs profile ''Mixed'')]
      else Inl TypeError)
   \<and> build_playlists [] profile = Inr [(''Hype'', []), (''Chill'', []), (''Mixed'', [])]"
  unfolding build_playlists_def build_loop_result by (simp add: labelled_Nil)

theorem build_playlists_result_witness:
  "build_playlists
     [[(''title'', VStr ''Go Loud''), (''artist'', VStr ''The Crows''), (''genre'', VStr ''rock''),
       (''energy'', VInt 9)],
      [(''title'', VStr ''lofi dreams''), (''artist'', VStr ''Soft Bird''),
       (''genre'', VStr ''ambient''), (''energy'', VInt 1)]] DEFAULT_PROFILE
   = Inr [(''Hype'', [[(''title'', VStr ''Go Loud''), (''artist'', VStr ''the crows''),
                      (''genre'', VStr ''rock''), (''energy'', VInt 9), (''tags'', VList []),
                      (''mood'', VStr ''Hype'')]]),
          (''Chill'', [[(''title'', VStr ''lofi dreams''), (''artist'', VStr ''soft bird''),
                       (''genre'', VStr ''ambient''), (''energy'', VInt 1), (''tags'', VList []),
                       (''mood'', VStr ''Chill'')]]),
          (''Mixed'', [])]"
proof -
  have n1: "normalize_song [(''title'', VStr ''Go Loud''), (''artist'', VStr ''The Crows''),
       (''genre'', VStr ''rock''), (''energy'', VInt 9)]
     = [(''title'', VStr ''Go Loud''), (''artist'', VStr ''the crows''),
        (''genre'', VStr ''rock''), (''energy'', VInt 9), (''tags'', VList [])]"
    by code_simp
  have n2: "normalize_song [(''title'', VStr ''lofi dreams''), (''artist'', VStr ''Soft Bird''),
       (''genre'', VStr ''ambient''), (''energy'', VInt 1)]
     = [(''title'', VStr ''lofi dreams''), (''artist'', VStr ''soft bird''),
        (''genre'', VStr ''ambient''), (''energy'', VInt 1), (''tags'', VList [])]"
    by code_simp
  have c1: "classify_song [(''title'', VStr ''Go Loud''), (''artist'', VStr ''the crows''),
        (''genre'', VStr ''rock''), (''energy'', VInt 9), (''tags'', VList [])] DEFAULT_PROFILE
      = Inr ''Hype''"
    by code_simp
  have c2: "classify_song [(''title'', VStr ''lofi dreams''), (''artist'', VStr ''soft bird''),
        (''genre'', VStr ''ambient''), (''energy'', VInt 1), (''tags'', VList [])] DEFAULT_PROFILE
      = Inr ''Chill''"
    by code_simp
  show ?thesis
    using build_playlists_result [of
      "[[(''title'', VStr ''Go Loud''), (''artist'', VStr ''The Crows''), (''genre'', VStr ''rock''),
       (''energy'', VInt 9)],
      [(''title'', VStr ''lofi dreams''), (''artist'', VStr ''Soft Bird''),
       (''genre'', VStr ''ambient''), (''energy'', VInt 1)]]" DEFAULT_PROFILE]
    by (simp add: labelled_def n1 n2 c1 c2)
qed

text \<open>
  A raw song whose energy is \<^verbatim>\<open>None\<close> and whose genre is not the favorite one: the
  normalizer keeps the \<^verbatim>\<open>None\<close>, the comparison with the threshold raises, and the
  builder returns no map.
\<close>

theorem build_playlists_raises_counterexample:
  "build_playlists [[(''title'', VStr ''Intro''), (''energy'', VNone)]] DEFAULT_PROFILE
     = Inl TypeError"
proof -
  have n: "normalize_song [(''title'', VStr ''Intro''), (''energy'', VNone)]
     = [(''title'', VStr ''Intro''), (''artist'', VStr ''''), (''genre'', VStr ''''),
        (''energy'', VNone), (''tags'', VList [])]"
    by code_simp
  have c: "classify_song [(''title'', VStr ''Intro''), (''artist'', VStr ''''), (''genre'', VStr ''''),
        (''energy'', VNone), (''tags'', VList [])] DEFAULT_PROFILE = Inl TypeError"
    by code_simp
  show ?thesis
    by (simp add: build_playlists_def n c)
qed

section \<open>Statistics\<close>













subsection \<open>True division\<close>











lemma py_truediv_third: "py_truediv 1 3 = Inr (6004799503160661 / 18014398509481984)"
proof -
  have bl: "bit_length 1 = 1" "bit_length 3 = 2" by (simp_all add: bit_length.simps)
  have e: "floor_log2 1 3 = - 2" by (simp add: floor_log2_def bl)
  have m: "round_scaled 1 3 (- 54) = 6004799503160661"
    by (simp add: round_scaled_def round_half_even_def)
  have r: "round_double 1 3 = 6004799503160661 / 18014398509481984"
    by (simp add: round_double_def e m pow2_def)
  show ?thesis by (simp add: py_truediv_def r pow2_def)
qed



subsection \<open>The outcome of \<^verbatim>\<open>compute_playlist_stats\<close>\<close>











subsection \<open>The most common artist\<close>





section \<open>The history summary\<close>

text \<open>Python's equality is an equivalence on the values of the model.\<close>

lemma py_eq_refl: "py_eq a a"
  by (cases a) auto

lemma py_eq_sym: "py_eq a b \<Longrightarrow> py_eq b a"
  by (cases a; cases b) (auto split: if_splits)

lemma py_eq_trans: "py_eq a b \<Longrightarrow> py_eq b c \<Longrightarrow> py_eq a c"
  by (cases a; cases b; cases c) (auto split: if_splits)

lemma py_eq_VStr: "py_eq (VStr s) k \<longleftrightarrow> k = VStr s"
  by (cases k) auto

lemma key_get_cong: "py_eq k k' \<Longrightarrow> key_get d k = key_get d k'"
proof (induction d)
  case Nil
  then show ?case by simp
next
  case (Cons e d)
  obtain k0 v0 where e: "e = (k0, v0)" by (cases e)
  from Cons.prems have "py_eq k0 k \<longleftrightarrow> py_eq k0 k'"
    by (meson py_eq_sym py_eq_trans)
  with Cons show ?case by (simp add: e)
qed

lemma key_get_key_set:
  "key_get (key_set d k v) k' = (if py_eq k k' then Some v else key_get d k')"
proof (induction d)
  case Nil
  then show ?case by simp
next
  case (Cons e d)
  obtain k0 v0 where e: "e = (k0, v0)" by (cases e)
  show ?case
  proof (cases "py_eq k0 k")
    case True
    then have "py_eq k0 k' \<longleftrightarrow> py_eq k k'"
      by (meson py_eq_sym py_eq_trans)
    with True show ?thesis by (simp add: e)
  next
    case False
    then have "\<not> (py_eq k0 k' \<and> py_eq k k')"
      by (meson py_eq_sym py_eq_trans)
    with False Cons.IH show ?thesis by (auto simp: e)
  qed
qed

lemma history_loop_counts:
  assumes "\<forall>s \<in> set history. py_hashable (mood_of s)"
  shows "\<exists>counts'. history_loop history counts = Inr counts'
     \<and> (\<forall>k. key_get counts' k =
          (if key_get counts k = None \<and> tally history k = 0 then None
           else Some ((case key_get counts k of None \<Rightarrow> 0 | Some n \<Rightarrow> n) + tally history k)))"
  using assms
proof (induction history arbitrary: counts)
  case Nil
  then show ?case by (auto simp: tally_def split: option.splits)
next
  case (Cons s history)
  define m where "m = mood_of s"
  define c1 where "c1 = key_set counts m ((case key_get counts m of None \<Rightarrow> 0 | Some n \<Rightarrow> n) + 1)"
  from Cons.prems have hm: "py_hashable m" and rest: "\<forall>s \<in> set history. py_hashable (mood_of s)"
    by (simp_all add: m_def)
  have step: "history_loop (s # history) counts = history_loop history c1"
    using hm by (simp add: m_def c1_def mood_of_def Let_def)
  from Cons.IH [OF rest, of c1] obtain counts' where
    r: "history_loop history c1 = Inr counts'"
    and g: "\<And>k. key_get counts' k =
          (if key_get c1 k = None \<and> tally history k = 0 then None
           else Some ((case key_get c1 k of None \<Rightarrow> 0 | Some n \<Rightarrow> n) + tally history k))"
    by blast
  have t: "tally (s # history) k = (if py_eq m k then 1 else 0) + tally history k" for k
    by (simp add: tally_def m_def)
  have "key_get counts' k =
          (if key_get counts k = None \<and> tally (s # history) k = 0 then None
           else Some ((case key_get counts k of None \<Rightarrow> 0 | Some n \<Rightarrow> n) + tally (s # history) k))"
    for k
  proof (cases "py_eq m k")
    case True
    then have "key_get counts m = key_get counts k" by (rule key_get_cong)
    with True show ?thesis
      unfolding g t by (simp add: c1_def key_get_key_set)
  next
    case False
    then show ?thesis
      unfolding g t by (simp add: c1_def key_get_key_set)
  qed
  with r step show ?case by simp
qed

text \<open>
  C9. For every list of song records whose moods can be dictionary keys (any value but a
  list; a song with no mood field counts as "Mixed"), \<open>history_summary\<close> returns a mapping
  in which a label has an entry exactly when it is one of "Hype", "Chill", "Mixed" or the
  mood of some song of the history, and the entry of a label is the number of songs with
  that mood: the three preset labels are always present, with 0 when no song has them,
  and a mood outside the three is tallied under its own label.
\<close>

theorem history_summary_counts:
  assumes "\<forall>s \<in> set history. py_hashable (mood_of s)"
  shows "\<exists>counts. history_summary history = Inr counts
     \<and> (\<forall>label. key_get counts label =
          (if label \<in> {VStr ''Hype'', VStr ''Chill'', VStr ''Mixed''}
               \<or> (\<exists>s \<in> set history. py_eq (mood_of s) label)
           then Some (length (filter (\<lambda>s. py_eq (mood_of s) label) history))
           else None))"
proof -
  let ?c0 = "[(VStr ''Hype'', 0), (VStr ''Chill'', 0), (VStr ''Mixed'', 0)] :: (pyval, nat) dict"
  from history_loop_counts [OF assms, of ?c0] obtain counts where
    r: "history_loop history ?c0 = Inr counts"
    and g: "\<And>k. key_get counts k =
          (if key_get ?c0 k = None \<and> tally history k = 0 then None
           else Some ((case key_get ?c0 k of None \<Rightarrow> 0 | Some n \<Rightarrow> n) + tally history k))"
    by blast
  have c0: "key_get ?c0 k =
      (if k \<in> {VStr ''Hype'', VStr ''Chill'', VStr ''Mixed''} then Some 0 else None)" for k
    by (auto simp: py_eq_VStr)
  have z: "tally history k = 0 \<longleftrightarrow> \<not> (\<exists>s \<in> set history. py_eq (mood_of s) k)" for k
    by (auto simp: tally_def filter_empty_conv)
  have "key_get counts label =
          (if label \<in> {VStr ''Hype'', VStr ''Chill'', VStr ''Mixed''}
               \<or> (\<exists>s \<in> set history. py_eq (mood_of s) label)
           then Some (length (filter (\<lambda>s. py_eq (mood_of s) label) history))
           else None)" for label
    unfolding g c0 z by (auto simp: tally_def)
  with r show ?thesis by (simp add: history_summary_def)
qed

text \<open>The scenario of the specification: two "Hype" entries and one entry without a mood.\<close>

theorem history_summary_counts_witness:
  "\<exists>counts. history_summary [[(''mood'', VStr ''Hype'')], [(''mood'', VStr ''Hype'')], []] = Inr counts
     \<and> key_get counts (VStr ''Hype'') = Some 2
     \<and> key_get counts (VStr ''Chill'') = Some 0
     \<and> key_get counts (VStr ''Mixed'') = Some 1
     \<and> key_get counts (VStr ''Sad'') = None"
proof -
  define H :: "song list" where "H = [[(''mood'', VStr ''Hype'')], [(''mood'', VStr ''Hype'')], []]"
  have m: "map mood_of H = [VStr ''Hype'', VStr ''Hype'', VStr ''Mixed'']"
    by (simp add: H_def mood_of_def dict_get_def)
  have h: "\<forall>s \<in> set H. py_hashable (mood_of s)"
    by (simp add: H_def mood_of_def dict_get_def)
  from history_summary_counts [OF h] obtain counts where
    r: "history_summary H = Inr counts"
    and g: "\<And>label. key_get counts label =
          (if label \<in> {VStr ''Hype'', VStr ''Chill'', VStr ''Mixed''}
               \<or> (\<exists>s \<in> set H. py_eq (mood_of s) label)
           then Some (length (filter (\<lambda>s. py_eq (mood_of s) label) H))
           else None)"
    by blast
  have "key_get counts (VStr ''Hype'') = Some 2" "key_get counts (VStr ''Chill'') = Some 0"
    "key_get counts (VStr ''Mixed'') = Some 1" "key_get counts (VStr ''Sad'') = None"
    unfolding g by (simp_all add: H_def mood_of_def dict_get_def)
  with r have "\<exists>counts. history_summary H = Inr counts
     \<and> key_get counts (VStr ''Hype'') = Some 2
     \<and> key_get counts (VStr ''Chill'') = Some 0
     \<and> key_get counts (VStr ''Mixed'') = Some 1
     \<and> key_get counts (VStr ''Sad'') = None" by blast
  then show ?thesis unfolding H_def .
qed

lemma history_summary_example:
  "history_summary [[(''mood'', VStr ''Hype'')], [(''mood'', VStr ''Hype'')], []]
     = Inr [(VStr ''Hype'', 2), (VStr ''Chill'', 0), (VStr ''Mixed'', 1)]"
  by (simp add: history_summary_def dict_get_def)

end
